theory Spec2Isabelle
  imports Main
begin

section \<open>The zipkin input plugin (plugins/inputs/zipkin/zipkin.go)\<close>

text \<open>
  The plugin owns an HTTP server that is run by one background goroutine. The embedding
  keeps the shared objects of the Go program in one record, the \<open>world\<close>: the
  \<open>*Zipkin\<close> value, the store of \<open>sync.WaitGroup\<close> counters, the accumulators
  (as the log of the calls made on them), the goroutines launched so far with their
  program counter, the lines written by \<open>log.Println\<close>, and a logical clock.
  A method of the source is a function from world to world; a run-time panic is a value.
\<close>

subsection \<open>Constants\<close>

definition DefaultPort :: int where
  "DefaultPort = 9411"

definition DefaultRoute :: string where
  "DefaultRoute = ''/api/v1/spans''"

text \<open>An untyped constant, used as a \<open>time.Duration\<close>: a number of time units.\<close>

definition DefaultShutdownTimeout :: nat where
  "DefaultShutdownTimeout = 5"

subsection \<open>Values of the Go runtime and of the libraries\<close>

text \<open>An \<open>error\<close> value is represented by its message, \<open>err.Error()\<close>.\<close>

datatype error = Error string

datatype panic = NilPointerDereference | NegativeWaitGroupCounter

text \<open>\<open>fmt.Errorf("E! Error listening: %v", err)\<close>.\<close>

fun Errorf_listening :: "error \<Rightarrow> error" where
  "Errorf_listening (Error msg) = Error (''E! Error listening: '' @ msg)"

definition ErrServerClosed :: error where
  "ErrServerClosed = Error ''http: Server closed''"

definition DeadlineExceeded :: error where
  "DeadlineExceeded = Error ''context deadline exceeded''"

text \<open>
  \<open>strconv.Itoa\<close>: the decimal representation of an integer, with a minus sign for a
  negative one.
\<close>

definition digit :: "nat \<Rightarrow> char" where
  "digit d = ''0123456789'' ! d"

function utoa :: "nat \<Rightarrow> string" where
  "utoa n = (if n < 10 then [digit n] else utoa (n div 10) @ [digit (n mod 10)])"
  by pat_completeness auto
termination
  by (relation "measure id") auto

declare utoa.simps [simp del]

definition Itoa :: "int \<Rightarrow> string" where
  "Itoa i = (if i < 0 then CHR ''-'' # utoa (nat (- i)) else utoa (nat i))"

text \<open>A \<open>*mux.Router\<close> is represented by the routes registered on it, in order.\<close>

type_synonym Router = "string list"

definition NewRouter :: Router where
  "NewRouter = []"

text \<open>
  A \<open>telegraf.Accumulator\<close> is an interface of the host; the plugin only calls
  \<open>AddError\<close> on it. An accumulator is the log of the calls received, and the world
  holds the accumulators by address, since the goroutine keeps the one passed to
  \<open>Start\<close>.
\<close>

datatype acc_call = AddError error

type_synonym Accumulator = "acc_call list"

text \<open>
  Modelled from the spec: \<open>NewLineProtocolConverter\<close> is defined in another file of
  package zipkin. It yields the Recorder that forwards into the accumulator it is given
  (section 4.4 (ii) of the spec); the value keeps the address of that accumulator.
\<close>

datatype Recorder = NewLineProtocolConverter nat

text \<open>
  The interface \<open>Handler\<close>: a value with one method,
  \<open>Register(router *mux.Router, recorder Recorder) error\<close>. The router is updated in
  place in Go; here the method returns the router after registration and the error
  (\<open>None\<close> is \<open>nil\<close>).
\<close>

datatype Handler = MkHandler (Register: "Router \<Rightarrow> Recorder \<Rightarrow> Router \<times> error option")

text \<open>
  Modelled from the spec: \<open>NewSpanHandler\<close> is defined in another file of package
  zipkin. It constructs the default Handler bound to the given route path (section 4.4),
  whose registration binds that route onto the router (section 4.3).
\<close>

definition NewSpanHandler :: "string \<Rightarrow> Handler" where
  "NewSpanHandler path = MkHandler (\<lambda>router recorder. (router @ [path], None))"

text \<open>
  \<open>http.Server\<close>: the two fields the plugin sets, and the flag that \<open>Shutdown\<close>
  raises in the server.
\<close>

record Server =
  Addr :: string
  Handler :: Router
  inShutdown :: bool

subsection \<open>The plugin\<close>

text \<open>
  The struct \<open>Zipkin\<close>. A nil interface or pointer is \<open>None\<close>; \<open>waitGroup\<close>
  holds the address of a \<open>sync.WaitGroup\<close> in the store of the world.
\<close>

record Zipkin =
  ServiceAddress :: string
  Port :: int
  Path :: string
  handler :: "Handler option"
  server :: "Server option"
  waitGroup :: "nat option"

text \<open>
  The goroutine launched by \<open>Start\<close>, as its closure (the local \<open>wg\<close> and the
  parameter \<open>acc\<close>, both by address) and the statement it is at:
  \<^verbatim>\<open>
  go func() {
      wg.Add(1)          // AtAdd
      defer wg.Done()    // AtDone, run when the function returns or panics
      z.Listen(acc)      // AtListen (lines 145-154), AtServe (lines 155-157)
  }()
  \<close>
\<close>

datatype pc = AtAdd | AtListen | AtServe | AtDone "panic option" | Exited | Crashed panic

record goroutine =
  wg :: nat
  acc :: nat
  at :: pc

record world =
  zipkin :: Zipkin
  waitGroups :: "nat list"
  accumulators :: "nat \<Rightarrow> Accumulator"
  goroutines :: "goroutine list"
  logged :: "string list"
  clock :: nat
  idle_at :: "nat option"

text \<open>
  \<open>clock\<close> is the current time and \<open>idle_at\<close> the time at which the requests in
  flight complete (\<open>None\<close>: never), both in time units; they belong to the
  environment of the program.
\<close>

subsection \<open>Gather\<close>

text \<open>\<^verbatim>\<open>func (z *Zipkin) Gather(acc telegraf.Accumulator) error { return nil }\<close>\<close>

definition Gather :: "nat \<Rightarrow> world \<Rightarrow> error option \<times> world" where
  "Gather a w = (None, w)"

subsection \<open>The factory registered by init\<close>

text \<open>
  Modelled from the spec: \<open>inputs.Add\<close> is defined in package inputs, outside the
  source at hand. It enters a factory function in the table of the extension point
  (section 9), under the plugin's name.
\<close>

type_synonym registry = "string \<rightharpoonup> (unit \<Rightarrow> Zipkin)"

definition Add :: "string \<Rightarrow> (unit \<Rightarrow> Zipkin) \<Rightarrow> registry \<Rightarrow> registry" where
  "Add name creator inputs = inputs(name \<mapsto> creator)"

text \<open>The fields that the composite literal leaves out have their zero value.\<close>

definition init :: "registry \<Rightarrow> registry" where
  "init inputs =
     Add ''zipkin''
       (\<lambda>_. \<lparr> ServiceAddress = '''', Port = DefaultPort, Path = DefaultRoute,
              handler = None, server = None, waitGroup = None \<rparr>)
       inputs"

subsection \<open>Start\<close>

text \<open>
  \<open>Start\<close> writes a log line, installs the default handler when there is none,
  allocates a fresh WaitGroup (counter 0) and stores its address, launches the goroutine
  and returns \<open>nil\<close>. The goroutine has not run any statement when \<open>Start\<close> returns.
\<close>

definition Start :: "nat \<Rightarrow> world \<Rightarrow> error option \<times> world" where
  "Start a w =
     (let z = zipkin w;
          z1 = (if handler z = None then z\<lparr>handler := Some (NewSpanHandler (Path z))\<rparr> else z);
          wg_addr = length (waitGroups w);
          z2 = z1\<lparr>waitGroup := Some wg_addr\<rparr>
      in (None,
          w\<lparr> logged := logged w @ [''starting...''],
             zipkin := z2,
             waitGroups := waitGroups w @ [0],
             goroutines := goroutines w @ [\<lparr> wg = wg_addr, acc = a, at = AtAdd \<rparr>] \<rparr>))"

subsection \<open>Listen\<close>

text \<open>
  Lines 145 to 154 of \<open>Listen\<close>: a fresh router, the converter for the accumulator,
  the registration of the handler, and the construction of the server when there is none.
  Calling \<open>Register\<close> on a nil interface value panics. The error that \<open>Register\<close>
  returns is not bound to anything in the source.
\<close>

definition Listen_setup :: "nat \<Rightarrow> world \<Rightarrow> panic + world" where
  "Listen_setup a w =
     (let z = zipkin w;
          router = NewRouter;
          converter = NewLineProtocolConverter a
      in case handler z of
           None \<Rightarrow> Inl NilPointerDereference
         | Some h \<Rightarrow>
             (let router' = fst (Register h router converter);
                  z' = (if server z = None
                        then z\<lparr>server := Some \<lparr> Addr = '':'' @ Itoa (Port z),
                                                Handler = router',
                                                inShutdown = False \<rparr>\<rparr>
                        else z)
              in Inr (w\<lparr>zipkin := z'\<rparr>)))"

text \<open>
  Lines 155 to 157: \<open>z.server.ListenAndServe()\<close> blocks while the server serves; \<open>r\<close>
  is what it returns in the end. An error is passed to \<open>acc.AddError\<close>.
\<close>

definition Listen_serve :: "error option \<Rightarrow> nat \<Rightarrow> world \<Rightarrow> world" where
  "Listen_serve r a w =
     (case r of
        None \<Rightarrow> w
      | Some err \<Rightarrow>
          w\<lparr>accumulators :=
               (accumulators w)(a := accumulators w a @ [AddError (Errorf_listening err)])\<rparr>)"

text \<open>The whole of \<open>Listen\<close>, given the result \<open>r\<close> of \<open>ListenAndServe\<close>.\<close>

definition Listen :: "error option \<Rightarrow> nat \<Rightarrow> world \<Rightarrow> panic + world" where
  "Listen r a w =
     (case Listen_setup a w of
        Inl e \<Rightarrow> Inl e
      | Inr w' \<Rightarrow> Inr (Listen_serve r a w'))"

subsection \<open>The goroutine\<close>

text \<open>
  One statement of the goroutine; \<open>None\<close> when it cannot move (it is serving, or it has
  ended). \<open>wg.Add(1)\<close> and \<open>wg.Done()\<close> act on the WaitGroup the closure captured;
  \<open>Done\<close> panics on a counter that would become negative. \<open>ListenAndServe\<close> returns
  \<open>ErrServerClosed\<close> once \<open>Shutdown\<close> has been called on the server. A panic inside
  \<open>Listen\<close> runs the deferred \<open>wg.Done()\<close> and ends the goroutine as \<open>Crashed\<close>.
\<close>

definition wg_Add1 :: "nat \<Rightarrow> world \<Rightarrow> world" where
  "wg_Add1 p w = w\<lparr>waitGroups := (waitGroups w)[p := waitGroups w ! p + 1]\<rparr>"

definition wg_Done :: "nat \<Rightarrow> world \<Rightarrow> panic + world" where
  "wg_Done p w =
     (if waitGroups w ! p = 0 then Inl NegativeWaitGroupCounter
      else Inr (w\<lparr>waitGroups := (waitGroups w)[p := waitGroups w ! p - 1]\<rparr>))"

definition goroutine_step :: "goroutine \<Rightarrow> world \<Rightarrow> (goroutine \<times> world) option" where
  "goroutine_step g w =
     (case at g of
        AtAdd \<Rightarrow> Some (g\<lparr>at := AtListen\<rparr>, wg_Add1 (wg g) w)
      | AtListen \<Rightarrow>
          (case Listen_setup (acc g) w of
             Inl e \<Rightarrow> Some (g\<lparr>at := AtDone (Some e)\<rparr>, w)
           | Inr w' \<Rightarrow> Some (g\<lparr>at := AtServe\<rparr>, w'))
      | AtServe \<Rightarrow>
          (case server (zipkin w) of
             None \<Rightarrow> Some (g\<lparr>at := AtDone (Some NilPointerDereference)\<rparr>, w)
           | Some s \<Rightarrow>
               if inShutdown s
               then Some (g\<lparr>at := AtDone None\<rparr>, Listen_serve (Some ErrServerClosed) (acc g) w)
               else None)
      | AtDone pending \<Rightarrow>
          (case wg_Done (wg g) w of
             Inl e \<Rightarrow> Some (g\<lparr>at := Crashed e\<rparr>, w)
           | Inr w' \<Rightarrow>
               Some (g\<lparr>at := (case pending of None \<Rightarrow> Exited | Some e \<Rightarrow> Crashed e)\<rparr>, w'))
      | Exited \<Rightarrow> None
      | Crashed e \<Rightarrow> None)"

subsection \<open>Stop\<close>

text \<open>
  \<open>context.Background()\<close> has no deadline; \<open>context.WithTimeout(parent, d)\<close> has the
  deadline \<open>now + d\<close>, or the parent's when that is earlier.
\<close>

record "context" =
  deadline :: "nat option"

definition Background :: "context" where
  "Background = \<lparr> deadline = None \<rparr>"

definition WithTimeout :: "context \<Rightarrow> nat \<Rightarrow> nat \<Rightarrow> context" where
  "WithTimeout parent timeout now =
     \<lparr> deadline = Some (case deadline parent of
                          None \<Rightarrow> now + timeout
                        | Some d \<Rightarrow> min d (now + timeout)) \<rparr>"

text \<open>
  \<open>(*http.Server).Shutdown(ctx)\<close> of net/http, by its documentation: it marks the
  server as shutting down and closes the listeners, then waits for the connections to
  become idle and returns \<open>nil\<close>; if the context expires first it returns the context's
  error. The result is the server, the error and the time of the return, or \<open>None\<close>
  when the call never returns.
\<close>

definition Shutdown :: "Server \<Rightarrow> context \<Rightarrow> nat \<Rightarrow> nat option \<Rightarrow> (Server \<times> error option \<times> nat) option" where
  "Shutdown s ctx now idle =
     (let s' = s\<lparr>inShutdown := True\<rparr>
      in case (idle, deadline ctx) of
           (Some i, Some d) \<Rightarrow>
             Some (if i \<le> now \<or> i \<le> d then (s', None, max now i)
                   else (s', Some DeadlineExceeded, max now d))
         | (Some i, None) \<Rightarrow> Some (s', None, max now i)
         | (None, Some d) \<Rightarrow> Some (s', Some DeadlineExceeded, max now d)
         | (None, None) \<Rightarrow> None)"

text \<open>The context that \<open>Stop\<close> builds on line 135.\<close>

definition Stop_ctx :: "world \<Rightarrow> context" where
  "Stop_ctx w = WithTimeout Background DefaultShutdownTimeout (clock w)"

text \<open>
  The statements of \<open>Stop\<close>, in the order they run:
  \<^verbatim>\<open>
  ctx, cancel := context.WithTimeout(context.Background(), DefaultShutdownTimeout)
  defer cancel()                 // AtCancel, runs last
  defer z.waitGroup.Wait()       // AtWait, runs when Shutdown has returned or panicked
  z.server.Shutdown(ctx)         // AtShutdown
  \<close>
  The receiver \<open>z.waitGroup\<close> is evaluated at the \<open>defer\<close> statement. A call on a nil
  \<open>*http.Server\<close> or a nil \<open>*sync.WaitGroup\<close> dereferences it and panics; the
  deferred calls still run, and the panic goes on when they are done. \<open>Wait\<close> blocks
  until the counter is zero.
\<close>

datatype stop_pc =
  AtShutdown | AtWait "nat option" "panic option" | AtCancel "panic option"
  | Returned | Panicked panic

definition Stop_step :: "stop_pc \<Rightarrow> world \<Rightarrow> (stop_pc \<times> world) option" where
  "Stop_step p w =
     (case p of
        AtShutdown \<Rightarrow>
          (let ctx = Stop_ctx w;
               receiver = waitGroup (zipkin w)
           in case server (zipkin w) of
                None \<Rightarrow> Some (AtWait receiver (Some NilPointerDereference), w)
              | Some s \<Rightarrow>
                  (case Shutdown s ctx (clock w) (idle_at w) of
                     None \<Rightarrow> None
                   | Some (s', err, t) \<Rightarrow>
                       Some (AtWait receiver None,
                             w\<lparr>zipkin := (zipkin w)\<lparr>server := Some s'\<rparr>, clock := t\<rparr>)))
      | AtWait receiver pending \<Rightarrow>
          (case receiver of
             None \<Rightarrow> Some (AtCancel (Some NilPointerDereference), w)
           | Some q \<Rightarrow> if waitGroups w ! q = 0 then Some (AtCancel pending, w) else None)
      | AtCancel pending \<Rightarrow>
          (case pending of
             None \<Rightarrow> Some (Returned, w)
           | Some e \<Rightarrow> Some (Panicked e, w))
      | Returned \<Rightarrow> None
      | Panicked e \<Rightarrow> None)"

text \<open>
  \<open>Stop\<close> run by the caller while no other goroutine moves: its statements, one after
  the other, as far as they go. It ends in \<open>Returned\<close> or \<open>Panicked\<close>, or stays at
  the statement that blocks.
\<close>

fun Stop_run :: "nat \<Rightarrow> stop_pc \<times> world \<Rightarrow> stop_pc \<times> world" where
  "Stop_run 0 s = s"
| "Stop_run (Suc n) (p, w) =
     (case Stop_step p w of
        None \<Rightarrow> (p, w)
      | Some s' \<Rightarrow> Stop_run n s')"

definition Stop :: "world \<Rightarrow> stop_pc \<times> world" where
  "Stop w = Stop_run 3 (AtShutdown, w)"

subsection \<open>Interleavings of the caller and the goroutines\<close>

text \<open>
  A schedule is a list of events: the caller runs the next statement of \<open>Stop\<close>,
  goroutine \<open>i\<close> runs its next statement, or the \<open>ListenAndServe\<close> of goroutine \<open>i\<close>
  fails with an error (it could not bind, or accepting failed). An event that is not
  enabled leaves the state as it is.
\<close>

datatype event = Caller | Run nat | ServeError nat error

definition put_goroutine :: "nat \<Rightarrow> goroutine \<Rightarrow> world \<Rightarrow> world" where
  "put_goroutine i g w = w\<lparr>goroutines := (goroutines w)[i := g]\<rparr>"

fun exec_event :: "event \<Rightarrow> stop_pc \<times> world \<Rightarrow> stop_pc \<times> world" where
  "exec_event Caller (p, w) =
     (case Stop_step p w of
        None \<Rightarrow> (p, w)
      | Some s' \<Rightarrow> s')"
| "exec_event (Run i) (p, w) =
     (if i < length (goroutines w)
      then case goroutine_step (goroutines w ! i) w of
             None \<Rightarrow> (p, w)
           | Some (g', w') \<Rightarrow> (p, put_goroutine i g' w')
      else (p, w))"
| "exec_event (ServeError i err) (p, w) =
     (if i < length (goroutines w)
      then let g = goroutines w ! i
           in if at g = AtServe
              then (p, put_goroutine i (g\<lparr>at := AtDone None\<rparr>) (Listen_serve (Some err) (acc g) w))
              else (p, w)
      else (p, w))"

fun exec :: "event list \<Rightarrow> stop_pc \<times> world \<Rightarrow> stop_pc \<times> world" where
  "exec [] s = s"
| "exec (e # es) s = exec es (exec_event e s)"

text \<open>The plugin as the factory makes it, in a world where nothing has happened yet.\<close>

definition factory_Zipkin :: Zipkin where
  "factory_Zipkin = the (init Map.empty ''zipkin'') ()"

definition initial_world :: "Zipkin \<Rightarrow> world" where
  "initial_world z =
     \<lparr> zipkin = z, waitGroups = [], accumulators = (\<lambda>_. []), goroutines = [],
       logged = [], clock = 0, idle_at = Some 0 \<rparr>"

text \<open>
  The address the server is bound to once the goroutine has run lines 145 to 154
  (\<open>None\<close> when \<open>Listen\<close> panics there).
\<close>

definition listen_address :: "nat \<Rightarrow> world \<Rightarrow> string option" where
  "listen_address a w =
     (case Listen_setup a w of
        Inl e \<Rightarrow> None
      | Inr w' \<Rightarrow> map_option Addr (server (zipkin w')))"

text \<open>A handler whose registration fails, and a plugin configured with it.\<close>

definition conflicting_handler :: Handler where
  "conflicting_handler = MkHandler (\<lambda>router recorder. (router, Some (Error ''route conflict'')))"

definition conflicting_Zipkin :: Zipkin where
  "conflicting_Zipkin = factory_Zipkin\<lparr>handler := Some conflicting_handler\<rparr>"

text \<open>A plugin whose configuration names an interface to bind.\<close>

definition loopback_Zipkin :: Zipkin where
  "loopback_Zipkin = factory_Zipkin\<lparr>ServiceAddress := ''127.0.0.1''\<rparr>"

text \<open>A plugin that already has a server.\<close>

definition preset_Server :: Server where
  "preset_Server = \<lparr> Addr = ''localhost:0'', Handler = [], inShutdown = False \<rparr>"

definition preset_Zipkin :: Zipkin where
  "preset_Zipkin =
     factory_Zipkin\<lparr>handler := Some (NewSpanHandler ''/spans''), server := Some preset_Server\<rparr>"

subsection \<open>The join of the worker, as an invariant of the interleavings\<close>

text \<open>
  The state of a run in which one worker, with the WaitGroup at address \<open>q\<close>, has got
  as far as \<open>ListenAndServe\<close>: the counter is 1 until the worker has run its
  \<open>wg.Done()\<close>, and the caller gets past its \<open>Wait\<close> only when the worker has exited.
\<close>

definition worker_ok :: "nat \<Rightarrow> world \<Rightarrow> bool" where
  "worker_ok q w =
     (length (goroutines w) = 1 \<and> wg (goroutines w ! 0) = q \<and> q < length (waitGroups w) \<and>
      server (zipkin w) \<noteq> None \<and>
      (case at (goroutines w ! 0) of
         AtServe \<Rightarrow> waitGroups w ! q = 1
       | AtDone pending \<Rightarrow> pending = None \<and> waitGroups w ! q = 1
       | Exited \<Rightarrow> waitGroups w ! q = 0
       | _ \<Rightarrow> False))"

definition caller_ok :: "nat \<Rightarrow> stop_pc \<Rightarrow> world \<Rightarrow> bool" where
  "caller_ok q p w =
     (case p of
        AtShutdown \<Rightarrow> waitGroup (zipkin w) = Some q
      | AtWait receiver pending \<Rightarrow> receiver = Some q \<and> pending = None
      | AtCancel pending \<Rightarrow> pending = None \<and> at (goroutines w ! 0) = Exited
      | Returned \<Rightarrow> at (goroutines w ! 0) = Exited
      | Panicked e \<Rightarrow> False)"

fun join_inv :: "nat \<Rightarrow> stop_pc \<times> world \<Rightarrow> bool" where
  "join_inv q (p, w) = (worker_ok q w \<and> caller_ok q p w)"

section \<open>Properties\<close>

subsection \<open>Auxiliary facts\<close>

lemma Itoa_DefaultPort: "Itoa 9411 = ''9411''"
  by (simp add: Itoa_def utoa.simps [of 9411] utoa.simps [of 941] utoa.simps [of 94]
      utoa.simps [of 9] digit_def)

lemma factory_Zipkin_eq:
  "factory_Zipkin =
     \<lparr> ServiceAddress = '''', Port = 9411, Path = ''/api/v1/spans'',
       handler = None, server = None, waitGroup = None \<rparr>"
  by (simp add: factory_Zipkin_def init_def Add_def DefaultPort_def DefaultRoute_def)

lemma Start_initial_world:
  "Start a (initial_world z) =
     (None,
      \<lparr> zipkin = z\<lparr>handler := (case handler z of
                                  None \<Rightarrow> Some (NewSpanHandler (Path z))
                                | Some h \<Rightarrow> Some h),
                   waitGroup := Some 0\<rparr>,
        waitGroups = [0], accumulators = (\<lambda>_. []),
        goroutines = [\<lparr> wg = 0, acc = a, at = AtAdd \<rparr>],
        logged = [''starting...''], clock = 0, idle_at = Some 0 \<rparr>)"
  by (simp add: Start_def initial_world_def Let_def split: option.splits)

lemma Start_handler_Some:
  "\<exists>h. handler (zipkin (snd (Start a w))) = Some h"
  by (cases "handler (zipkin w)") (simp_all add: Start_def Let_def)

lemma Start_accumulators:
  "accumulators (snd (Start a w)) = accumulators w"
  by (simp add: Start_def Let_def)

lemma Listen_setup_accumulators:
  assumes "handler (zipkin w) = Some h"
  shows "\<exists>w'. Listen_setup a w = Inr w' \<and> accumulators w' = accumulators w"
  using assms by (simp add: Listen_setup_def Let_def)

lemma Listen_accumulators:
  assumes "handler (zipkin w) = Some h"
  shows "\<exists>w'. Listen r a w = Inr w' \<and>
           accumulators w' =
             (case r of
                None \<Rightarrow> accumulators w
              | Some err \<Rightarrow>
                  (accumulators w)(a := accumulators w a @ [AddError (Errorf_listening err)]))"
proof -
  from Listen_setup_accumulators [OF assms] obtain w1
    where "Listen_setup a w = Inr w1" and "accumulators w1 = accumulators w"
    by blast
  then show ?thesis
    by (cases r) (simp_all add: Listen_def Listen_serve_def)
qed

subsection \<open>Gather and the factory\<close>

text \<open>
  C10. Gather is a no-op: for every plugin value and accumulator it returns no error and
  leaves the whole world as it was, so nothing is written to any accumulator and no
  field of the Zipkin value changes.
\<close>

theorem Gather_noop:
  "Gather a w = (None, w)"
  by (simp add: Gather_def)

text \<open>
  C9. Whatever the table of inputs held before, after \<open>init\<close> the name \<open>zipkin\<close> is
  bound to a factory whose Zipkin value has port 9411 and route path \<open>/api/v1/spans\<close>.
\<close>

theorem init_factory_defaults:
  "\<exists>f. init inputs ''zipkin'' = Some f \<and>
       Port (f ()) = 9411 \<and> Path (f ()) = ''/api/v1/spans''"
  by (simp add: init_def Add_def DefaultPort_def DefaultRoute_def)

subsection \<open>Start\<close>

text \<open>
  C7. When the handler field is nil, \<open>Start\<close> sets it to the default handler built from
  the configured path; a handler that is already there is left as it is. The goroutine
  that \<open>Start\<close> launches has not run yet in the world that \<open>Start\<close> returns, so the
  handler is in place before the worker runs.
\<close>

theorem Start_default_handler:
  "handler (zipkin (snd (Start a w))) =
     (case handler (zipkin w) of
        None \<Rightarrow> Some (NewSpanHandler (Path (zipkin w)))
      | Some h \<Rightarrow> Some h) \<and>
   last (goroutines (snd (Start a w))) = \<lparr> wg = length (waitGroups w), acc = a, at = AtAdd \<rparr>"
  by (simp add: Start_def Let_def split: option.splits)

text \<open>
  C4. \<open>Start\<close> returns \<open>nil\<close> for every plugin value and accumulator, with the worker
  launched but not yet run (still before its first statement) and nothing written to the
  accumulator. When the worker's \<open>ListenAndServe\<close> then returns an error, \<open>Listen\<close>
  appends exactly one \<open>AddError\<close> call to the accumulator that was passed to \<open>Start\<close>
  and changes no other accumulator.
\<close>

theorem Start_returns_nil_error_reported_once:
  "fst (Start a w) = None \<and>
   goroutines (snd (Start a w)) =
     goroutines w @ [\<lparr> wg = length (waitGroups w), acc = a, at = AtAdd \<rparr>] \<and>
   accumulators (snd (Start a w)) = accumulators w \<and>
   (\<exists>w'. Listen (Some err) a (snd (Start a w)) = Inr w' \<and>
         accumulators w' =
           (accumulators w)(a := accumulators w a @ [AddError (Errorf_listening err)]))"
proof -
  obtain h where h: "handler (zipkin (snd (Start a w))) = Some h"
    using Start_handler_Some by blast
  have "fst (Start a w) = None"
    by (simp add: Start_def Let_def)
  moreover have "goroutines (snd (Start a w)) =
      goroutines w @ [\<lparr> wg = length (waitGroups w), acc = a, at = AtAdd \<rparr>]"
    by (simp add: Start_def Let_def)
  moreover have "\<exists>w'. Listen (Some err) a (snd (Start a w)) = Inr w' \<and>
      accumulators w' =
        (accumulators w)(a := accumulators w a @ [AddError (Errorf_listening err)])"
    using Listen_accumulators [OF h, of "Some err" a] by (simp add: Start_accumulators)
  ultimately show ?thesis
    by (simp add: Start_accumulators)
qed

subsection \<open>Listen\<close>

text \<open>
  C8. With a handler in place, \<open>Listen\<close> returns, and the server field afterwards is the
  server that was there before, unchanged, when there was one; only when the field was
  nil is it a new server, on the address \<open>":" + strconv.Itoa(z.Port)\<close> and with the
  fresh router as its handler.
\<close>

theorem Listen_reuses_server:
  assumes "handler (zipkin w) = Some h"
  shows "\<exists>w'. Listen r a w = Inr w' \<and>
           server (zipkin w') =
             (case server (zipkin w) of
                None \<Rightarrow>
                  Some \<lparr> Addr = '':'' @ Itoa (Port (zipkin w)),
                         Handler = fst (Register h NewRouter (NewLineProtocolConverter a)),
                         inShutdown = False \<rparr>
              | Some s \<Rightarrow> Some s)"
  using assms
  by (cases r)
    (auto simp add: Listen_def Listen_setup_def Listen_serve_def Let_def split: option.splits)

theorem Listen_reuses_server_witness:
  "handler (zipkin (initial_world preset_Zipkin)) = Some (NewSpanHandler ''/spans'') \<and>
   server (zipkin (initial_world preset_Zipkin)) = Some preset_Server \<and>
   (\<exists>w'. Listen (Some ErrServerClosed) 0 (initial_world preset_Zipkin) = Inr w' \<and>
         server (zipkin w') = Some preset_Server)"
  using Listen_reuses_server
    [of "initial_world preset_Zipkin" "NewSpanHandler ''/spans''" "Some ErrServerClosed" 0]
  by (simp add: initial_world_def preset_Zipkin_def)

text \<open>
  C3, as the spec states it: the listen address is formed from both the configured
  serviceAddress and the port. It is not: a plugin configured with the serviceAddress
  127.0.0.1 and the default port listens on \<open>:9411\<close>, the same address as the plugin
  with an empty serviceAddress.
\<close>

theorem listen_address_ignores_ServiceAddress:
  "ServiceAddress loopback_Zipkin = ''127.0.0.1'' \<and>
   listen_address 0 (snd (Start 0 (initial_world loopback_Zipkin))) = Some '':9411'' \<and>
   ServiceAddress factory_Zipkin = '''' \<and>
   listen_address 0 (snd (Start 0 (initial_world factory_Zipkin))) = Some '':9411''"
  by (simp add: Start_initial_world loopback_Zipkin_def factory_Zipkin_eq listen_address_def
      Listen_setup_def Itoa_DefaultPort)

text \<open>
  C3, amended: when the worker constructs the server (there is a handler and no server
  yet), the listen address is a colon followed by the decimal port, so the server
  listens on that port on every interface; the address does not depend on the
  serviceAddress field.
\<close>

theorem listen_address_from_Port:
  assumes "handler (zipkin w) = Some h" and "server (zipkin w) = None"
  shows "listen_address a w = Some ('':'' @ Itoa (Port (zipkin w))) \<and>
         listen_address a (w\<lparr>zipkin := (zipkin w)\<lparr>ServiceAddress := s\<rparr>\<rparr>) = listen_address a w"
  using assms by (simp add: listen_address_def Listen_setup_def Let_def)

theorem listen_address_from_Port_witness:
  "handler (zipkin (snd (Start 0 (initial_world loopback_Zipkin)))) =
     Some (NewSpanHandler ''/api/v1/spans'') \<and>
   server (zipkin (snd (Start 0 (initial_world loopback_Zipkin)))) = None \<and>
   listen_address 0 (snd (Start 0 (initial_world loopback_Zipkin))) = Some '':9411''"
  using listen_address_from_Port
    [of "snd (Start 0 (initial_world loopback_Zipkin))" "NewSpanHandler ''/api/v1/spans''" 0 "''''"]
  by (simp add: Start_initial_world loopback_Zipkin_def factory_Zipkin_eq Itoa_DefaultPort)

text \<open>
  C2. The spec wants a failed registration to be reported and to stop the service from
  serving. The code at a handler whose \<open>Register\<close> returns an error: \<open>Start\<close> returns
  \<open>nil\<close>, and the worker, after its first two statements (\<open>wg.Add(1)\<close> and lines
  145 to 154 of \<open>Listen\<close>), has constructed the server and sits in \<open>ListenAndServe\<close>;
  no accumulator has received any call.
\<close>

theorem Listen_discards_Register_error:
  "Register conflicting_handler NewRouter (NewLineProtocolConverter 0) =
     (NewRouter, Some (Error ''route conflict'')) \<and>
   fst (Start 0 (initial_world conflicting_Zipkin)) = None \<and>
   exec [Run 0, Run 0] (AtShutdown, snd (Start 0 (initial_world conflicting_Zipkin))) =
     (AtShutdown,
      \<lparr> zipkin = conflicting_Zipkin
          \<lparr> server := Some \<lparr> Addr = '':9411'', Handler = [], inShutdown = False \<rparr>,
            waitGroup := Some 0 \<rparr>,
        waitGroups = [1], accumulators = (\<lambda>_. []),
        goroutines = [\<lparr> wg = 0, acc = 0, at = AtServe \<rparr>],
        logged = [''starting...''], clock = 0, idle_at = Some 0 \<rparr>)"
  by (simp add: Start_initial_world conflicting_Zipkin_def conflicting_handler_def
      factory_Zipkin_eq goroutine_step_def wg_Add1_def Listen_setup_def put_goroutine_def
      NewRouter_def Itoa_DefaultPort)

subsection \<open>Stop\<close>

text \<open>
  \<open>Stop\<close> never stays at \<open>Shutdown\<close>, whose context has a deadline: run by itself it
  returns, panics, or is blocked in \<open>Wait\<close> on a counter that is not zero.
\<close>

lemma Stop_step_AtShutdown_Some:
  "\<exists>receiver pending w'. Stop_step AtShutdown w = Some (AtWait receiver pending, w')"
  by (cases "idle_at w")
    (auto simp add: Stop_step_def Stop_ctx_def WithTimeout_def Background_def Shutdown_def Let_def
      split: option.splits)

lemma Stop_run_AtWait:
  "Stop_run 2 (AtWait receiver pending, w) =
     (case receiver of
        None \<Rightarrow> (Panicked NilPointerDereference, w)
      | Some q \<Rightarrow>
          if waitGroups w ! q = 0
          then (case pending of None \<Rightarrow> (Returned, w) | Some e \<Rightarrow> (Panicked e, w))
          else (AtWait receiver pending, w))"
  by (simp add: numeral_2_eq_2 Stop_step_def split: option.splits)

lemma Stop_ends_or_waits:
  "(\<exists>w'. Stop w = (Returned, w')) \<or> (\<exists>e w'. Stop w = (Panicked e, w')) \<or>
   (\<exists>q pending w'. Stop w = (AtWait (Some q) pending, w') \<and> waitGroups w' ! q \<noteq> 0)"
proof -
  obtain receiver pending w1
    where s1: "Stop_step AtShutdown w = Some (AtWait receiver pending, w1)"
    using Stop_step_AtShutdown_Some by blast
  have "Stop w = Stop_run 2 (AtWait receiver pending, w1)"
    by (simp add: Stop_def numeral_3_eq_3 numeral_2_eq_2 s1)
  then show ?thesis
    by (simp add: Stop_run_AtWait split: option.splits)
qed

text \<open>
  C1. The spec wants \<open>Stop\<close> on a value that was never started to return or to report
  an error, without a panic. The code: on every value whose server and waitGroup fields
  are nil, and so on the value the factory makes, \<open>Stop\<close> ends in a nil pointer
  dereference panic and changes nothing.
\<close>

theorem Stop_before_Start_panics:
  "Stop (w\<lparr>zipkin := (zipkin w)\<lparr>server := None, waitGroup := None\<rparr>\<rparr>) =
     (Panicked NilPointerDereference,
      w\<lparr>zipkin := (zipkin w)\<lparr>server := None, waitGroup := None\<rparr>\<rparr>) \<and>
   Stop (initial_world factory_Zipkin) =
     (Panicked NilPointerDereference, initial_world factory_Zipkin)"
  by (simp add: Stop_def Stop_step_def factory_Zipkin_eq initial_world_def numeral_3_eq_3)

text \<open>
  C5. The spec wants \<open>Stop\<close> to return only when the worker has exited. The code, when
  \<open>Stop\<close> is called on the factory's value right after \<open>Start\<close>, before the worker
  has run its first statement: the server field is still nil and the WaitGroup counter
  still zero, so \<open>Stop\<close> ends in a panic without having waited, and the worker is
  still before \<open>wg.Add(1)\<close>.
\<close>

theorem Stop_right_after_Start_does_not_join:
  "Stop (snd (Start 0 (initial_world factory_Zipkin))) =
     (Panicked NilPointerDereference, snd (Start 0 (initial_world factory_Zipkin))) \<and>
   map at (goroutines (snd (Start 0 (initial_world factory_Zipkin)))) = [AtAdd]"
  by (simp add: Start_initial_world Stop_def Stop_step_def factory_Zipkin_eq numeral_3_eq_3)

subsection \<open>Stop and the worker under interleaving\<close>

text \<open>
  When \<open>Stop\<close> is called while the worker is in \<open>ListenAndServe\<close>, the join works:
  every event keeps the invariant, so on no schedule does \<open>Stop\<close> panic, and on every
  schedule on which it returns the worker has exited.
\<close>

lemma join_inv_Caller:
  assumes "join_inv q (p, w)"
  shows "join_inv q (exec_event Caller (p, w))"
  using assms
  by (cases p)
    (auto simp add: worker_ok_def caller_ok_def Stop_step_def Shutdown_def Let_def
      split: option.splits pc.splits prod.splits if_splits)

lemma join_inv_Run:
  assumes "join_inv q (p, w)"
  shows "join_inv q (exec_event (Run i) (p, w))"
  using assms
  by (cases p; cases "at (goroutines w ! 0)")
    (auto simp add: worker_ok_def caller_ok_def goroutine_step_def wg_Done_def
      put_goroutine_def Listen_serve_def Let_def
      split: option.splits pc.splits prod.splits if_splits sum.splits)

lemma join_inv_ServeError:
  assumes "join_inv q (p, w)"
  shows "join_inv q (exec_event (ServeError i err) (p, w))"
  using assms
  by (cases p; cases "at (goroutines w ! 0)")
    (auto simp add: worker_ok_def caller_ok_def put_goroutine_def Listen_serve_def Let_def
      split: option.splits pc.splits prod.splits if_splits sum.splits)

lemma join_inv_exec_event:
  assumes "join_inv q s"
  shows "join_inv q (exec_event e s)"
  using assms join_inv_Caller join_inv_Run join_inv_ServeError
  by (cases e; cases s) auto

lemma join_inv_exec:
  assumes "join_inv q s"
  shows "join_inv q (exec es s)"
  using assms
  by (induction es arbitrary: s) (auto simp add: join_inv_exec_event)

lemma Stop_joins_serving_worker:
  assumes "goroutines w = [g]" and "at g = AtServe" and "wg g = q"
    and "q < length (waitGroups w)" and "waitGroups w ! q = 1"
    and "waitGroup (zipkin w) = Some q" and "server (zipkin w) = Some s"
    and run: "exec es (AtShutdown, w) = (p', w')"
  shows "(\<forall>e. p' \<noteq> Panicked e) \<and> (p' = Returned \<longrightarrow> map at (goroutines w') = [Exited])"
proof -
  have "join_inv q (AtShutdown, w)"
    using assms by (simp add: worker_ok_def caller_ok_def)
  then have inv: "join_inv q (p', w')"
    using join_inv_exec [of q "(AtShutdown, w)" es] run by simp
  then have "length (goroutines w') = 1"
    by (simp add: worker_ok_def)
  then obtain g' where g': "goroutines w' = [g']"
    by (cases "goroutines w'") auto
  from inv show ?thesis
    by (cases p') (auto simp add: caller_ok_def g')
qed

text \<open>
  Such a run from the factory's value: the worker runs \<open>wg.Add(1)\<close> and the first part
  of \<open>Listen\<close>, the caller calls \<open>Shutdown\<close> and blocks in \<open>Wait\<close>, the worker leaves
  \<open>ListenAndServe\<close> with \<open>ErrServerClosed\<close>, reports it and runs \<open>wg.Done()\<close>, and
  the caller returns.
\<close>

lemma Start_serve_Stop_run:
  "exec [Run 0, Run 0, Caller, Caller, Run 0, Run 0, Caller, Caller]
     (AtShutdown, snd (Start 0 (initial_world factory_Zipkin))) =
   (Returned,
    \<lparr> zipkin = \<lparr> ServiceAddress = '''', Port = 9411, Path = ''/api/v1/spans'',
                 handler = Some (NewSpanHandler ''/api/v1/spans''),
                 server = Some \<lparr> Addr = '':9411'', Handler = [''/api/v1/spans''],
                                 inShutdown = True \<rparr>,
                 waitGroup = Some 0 \<rparr>,
      waitGroups = [0],
      accumulators = (\<lambda>_. [])(0 := [AddError (Error ''E! Error listening: http: Server closed'')]),
      goroutines = [\<lparr> wg = 0, acc = 0, at = Exited \<rparr>],
      logged = [''starting...''], clock = 0, idle_at = Some 0 \<rparr>)"
  by (simp add: Start_initial_world factory_Zipkin_eq goroutine_step_def wg_Add1_def wg_Done_def
      Listen_setup_def Listen_serve_def put_goroutine_def NewRouter_def NewSpanHandler_def
      Itoa_DefaultPort Stop_step_def Stop_ctx_def Shutdown_def WithTimeout_def Background_def
      DefaultShutdownTimeout_def ErrServerClosed_def)

text \<open>
  A failure to bind: \<open>ListenAndServe\<close> returns the error, the worker reports it with one
  \<open>AddError\<close> call and exits.
\<close>

lemma bind_failure_run:
  "exec [Run 0, Run 0, ServeError 0 (Error ''bind: address already in use''), Run 0]
     (AtShutdown, snd (Start 0 (initial_world factory_Zipkin))) =
   (AtShutdown,
    \<lparr> zipkin = \<lparr> ServiceAddress = '''', Port = 9411, Path = ''/api/v1/spans'',
                 handler = Some (NewSpanHandler ''/api/v1/spans''),
                 server = Some \<lparr> Addr = '':9411'', Handler = [''/api/v1/spans''],
                                 inShutdown = False \<rparr>,
                 waitGroup = Some 0 \<rparr>,
      waitGroups = [0],
      accumulators =
        (\<lambda>_. [])(0 := [AddError (Error ''E! Error listening: bind: address already in use'')]),
      goroutines = [\<lparr> wg = 0, acc = 0, at = Exited \<rparr>],
      logged = [''starting...''], clock = 0, idle_at = Some 0 \<rparr>)"
  by (simp add: Start_initial_world factory_Zipkin_eq goroutine_step_def wg_Add1_def wg_Done_def
      Listen_setup_def Listen_serve_def put_goroutine_def NewRouter_def NewSpanHandler_def
      Itoa_DefaultPort)

text \<open>
  With a server already in place, \<open>Stop\<close> right after \<open>Start\<close> does not panic: it
  returns, the counter being zero, while the worker has not run yet.
\<close>

lemma Stop_with_preset_server_does_not_join:
  "fst (Stop (snd (Start 0 (initial_world preset_Zipkin)))) = Returned \<and>
   map at (goroutines (snd (Stop (snd (Start 0 (initial_world preset_Zipkin)))))) = [AtAdd]"
  by (simp add: Start_initial_world Stop_def Stop_step_def preset_Zipkin_def factory_Zipkin_eq
      numeral_3_eq_3 Shutdown_def Stop_ctx_def WithTimeout_def Background_def)

text \<open>
  With a server in place, the shutdown runs under the context of line 135, whose
  deadline is 5 time units after the call: \<open>Shutdown\<close> returns no later than that,
  whenever the requests in flight complete and also when they never do, and \<open>Stop\<close>
  goes on to its deferred \<open>Wait\<close>.
\<close>

lemma Stop_ctx_deadline:
  "deadline (Stop_ctx w) = Some (clock w + 5)"
  by (simp add: Stop_ctx_def WithTimeout_def Background_def DefaultShutdownTimeout_def)

lemma Shutdown_with_server_returns:
  assumes "server (zipkin w) = Some s"
  shows "\<exists>err t. Shutdown s (Stop_ctx w) (clock w) (idle_at w) =
                Some (s\<lparr>inShutdown := True\<rparr>, err, t) \<and>
           t \<le> clock w + 5 \<and>
           Stop_step AtShutdown w =
             Some (AtWait (waitGroup (zipkin w)) None,
                   w\<lparr>zipkin := (zipkin w)\<lparr>server := Some (s\<lparr>inShutdown := True\<rparr>)\<rparr>,
                     clock := t\<rparr>)"
  using assms
  by (auto simp add: Stop_ctx_def WithTimeout_def Background_def DefaultShutdownTimeout_def
      Shutdown_def Stop_step_def Let_def split: option.splits)

text \<open>
  C6. The spec wants every call of \<open>Stop\<close> to perform the graceful shutdown under a
  context with a deadline of 5 time units, and the shutdown call to return so that
  \<open>Stop\<close> proceeds. The code builds that context in every call, but on every value
  whose server field is nil the call \<open>z.server.Shutdown(ctx)\<close> panics: no server is
  shut down, the call does not return, and the panic is pending when the deferred
  \<open>Wait\<close> runs. This is so on the value the factory makes, where \<open>Stop\<close> ends in
  the panic, and also in the world \<open>Start\<close> returns, where the worker has not yet
  constructed the server.
\<close>

theorem Stop_shutdown_on_nil_server_panics:
  "deadline (Stop_ctx w) = Some (clock w + 5) \<and>
   Stop_step AtShutdown (w\<lparr>zipkin := (zipkin w)\<lparr>server := None\<rparr>\<rparr>) =
     Some (AtWait (waitGroup (zipkin w)) (Some NilPointerDereference),
           w\<lparr>zipkin := (zipkin w)\<lparr>server := None\<rparr>\<rparr>) \<and>
   Stop_step AtShutdown (initial_world factory_Zipkin) =
     Some (AtWait None (Some NilPointerDereference), initial_world factory_Zipkin) \<and>
   server (zipkin (snd (Stop (initial_world factory_Zipkin)))) = None \<and>
   fst (Stop (initial_world factory_Zipkin)) = Panicked NilPointerDereference \<and>
   Stop_step AtShutdown (snd (Start 0 (initial_world factory_Zipkin))) =
     Some (AtWait (Some 0) (Some NilPointerDereference),
           snd (Start 0 (initial_world factory_Zipkin)))"
proof -
  have "deadline (Stop_ctx w) = Some (clock w + 5)"
    by (rule Stop_ctx_deadline)
  moreover have "Stop_step AtShutdown (w\<lparr>zipkin := (zipkin w)\<lparr>server := None\<rparr>\<rparr>) =
     Some (AtWait (waitGroup (zipkin w)) (Some NilPointerDereference),
           w\<lparr>zipkin := (zipkin w)\<lparr>server := None\<rparr>\<rparr>)"
    by (simp add: Stop_step_def Let_def)
  moreover have "Stop_step AtShutdown (initial_world factory_Zipkin) =
     Some (AtWait None (Some NilPointerDereference), initial_world factory_Zipkin)"
    by (simp add: Stop_step_def Let_def factory_Zipkin_eq initial_world_def)
  moreover have "Stop (initial_world factory_Zipkin) =
     (Panicked NilPointerDereference, initial_world factory_Zipkin)"
    by (simp add: Stop_def Stop_step_def factory_Zipkin_eq initial_world_def numeral_3_eq_3)
  moreover have "server (zipkin (initial_world factory_Zipkin)) = None"
    by (simp add: factory_Zipkin_eq initial_world_def)
  moreover have "Stop_step AtShutdown (snd (Start 0 (initial_world factory_Zipkin))) =
     Some (AtWait (Some 0) (Some NilPointerDereference),
           snd (Start 0 (initial_world factory_Zipkin)))"
    by (simp add: Start_initial_world Stop_step_def Let_def factory_Zipkin_eq)
  ultimately show ?thesis
    by simp
qed

end
